theory Spec2Isabelle
  imports Complex_Main
begin

section \<open>Data model (types.ts)\<close>

text \<open>
  A JavaScript \<open>number\<close> is modelled as a real; the values that reach this code come out
  of \<open>JSON.parse\<close>, which yields no NaN and no infinity, and the code modelled here
  only tests them for 0 or adds a constant to them. A field typed
  \<open>number | null\<close> is a \<open>real option\<close>, \<open>None\<close> standing for \<open>null\<close>.
  The fields \<open>country\<close> and \<open>tags\<close> are read through \<open>?.\<close> in App.tsx, so they
  are optional here as well (\<open>None\<close> for \<open>null\<close> or \<open>undefined\<close>).
\<close>

record RadioStation =
  stationuuid :: string
  name :: string
  url :: string
  url_resolved :: string
  homepage :: string
  favicon :: string
  tags :: "string option"
  country :: "string option"
  countrycode :: string
  state :: string
  language :: string
  votes :: real
  codec :: string
  bitrate :: real
  geo_lat :: "real option"
  geo_long :: "real option"

text \<open>
  A value that \<open>JSON.parse\<close> returns. The object of a JSON text holds each key once.
  A \<open>json option\<close> is a value at run time, \<open>None\<close> standing for \<open>undefined\<close>.
  The interface \<open>AIMoodResponse\<close> exists at compile time only: the cast
  \<open>as AIMoodResponse\<close> of geminiService.ts checks nothing, so the response of the mood
  operation is a \<open>json\<close>, and so are the fields copied from it into a filter.
\<close>

datatype json =
  JNull
| JBool bool
| JNum real
| JStr string
| JArr "json list"
| JObj "(string \<times> json) list"

record StationFilter =
  f_country :: "json option"
  f_tag :: "json option"
  f_name :: "json option"
  f_limit :: "nat option"

section \<open>JavaScript truthiness\<close>

text \<open>
  \<open>null\<close>, \<open>undefined\<close>, \<open>false\<close>, \<open>0\<close> and the empty string are falsy; arrays
  and objects are truthy.
\<close>

fun truthy_num :: "real option \<Rightarrow> bool" where
  "truthy_num None = False"
| "truthy_num (Some x) = (x \<noteq> 0)"

fun truthy :: "json option \<Rightarrow> bool" where
  "truthy None = False"
| "truthy (Some JNull) = False"
| "truthy (Some (JBool b)) = b"
| "truthy (Some (JNum x)) = (x \<noteq> 0)"
| "truthy (Some (JStr s)) = (s \<noteq> [])"
| "truthy (Some (JArr vs)) = True"
| "truthy (Some (JObj kvs)) = True"

text \<open>The test \<open>s.geo_lat && s.geo_long\<close> of App.tsx (lines 39, 122 and 141).\<close>

definition geo_ok :: "RadioStation \<Rightarrow> bool" where
  "geo_ok s = (truthy_num (geo_lat s) \<and> truthy_num (geo_long s))"

text \<open>What the data model calls a coordinate that is present: a number, not \<open>null\<close>.\<close>

definition has_coords :: "RadioStation \<Rightarrow> bool" where
  "has_coords s = (geo_lat s \<noteq> None \<and> geo_long s \<noteq> None)"

section \<open>Strings\<close>

text \<open>
  \<open>String.prototype.toLowerCase\<close> on the ASCII letters; other characters are left as
  they are. \<open>String.prototype.includes\<close> is the substring test.
\<close>

definition lower_char :: "char \<Rightarrow> char" where
  "lower_char c =
     (if of_char c \<ge> (65::nat) \<and> of_char c \<le> (90::nat)
      then char_of (of_char c + (32::nat)) else c)"

definition toLowerCase :: "string \<Rightarrow> string" where
  "toLowerCase s = map lower_char s"

fun startsWith :: "string \<Rightarrow> string \<Rightarrow> bool" where
  "startsWith s [] = True"
| "startsWith [] (p # ps) = False"
| "startsWith (c # cs) (p # ps) = (c = p \<and> startsWith cs ps)"

fun includes_str :: "string \<Rightarrow> string \<Rightarrow> bool" where
  "includes_str [] p = (p = [])"
| "includes_str (c # cs) p = (startsWith (c # cs) p \<or> includes_str cs p)"

section \<open>Catalog reconciliation (App.tsx, init)\<close>

subsection \<open>The insertion-ordered Map\<close>

text \<open>
  A JavaScript \<open>Map\<close> keeps its entries in insertion order; \<open>set\<close> on a key that is
  already there replaces the value in place.
\<close>

type_synonym station_map = "(string \<times> RadioStation) list"

fun map_has :: "station_map \<Rightarrow> string \<Rightarrow> bool" where
  "map_has [] k = False"
| "map_has ((k', v) # m) k = (k' = k \<or> map_has m k)"

fun map_set :: "station_map \<Rightarrow> string \<Rightarrow> RadioStation \<Rightarrow> station_map" where
  "map_set [] k v = [(k, v)]"
| "map_set ((k', v') # m) k v = (if k' = k then (k, v) # m else (k', v') # map_set m k v)"

definition map_values :: "station_map \<Rightarrow> RadioStation list" where
  "map_values m = map snd m"

text \<open>The body of the \<open>forEach\<close> of lines 38 to 42, and the loop itself.\<close>

definition dedup_step :: "RadioStation \<Rightarrow> station_map \<Rightarrow> station_map" where
  "dedup_step s m =
     (if truthy_num (geo_lat s) \<and> truthy_num (geo_long s) \<and> \<not> map_has m (stationuuid s)
      then map_set m (stationuuid s) s else m)"

definition uniqueStations :: "RadioStation list \<Rightarrow> station_map" where
  "uniqueStations allStations = fold dedup_step allStations []"

subsection \<open>The priority sort\<close>

text \<open>
  \<open>isTurkish\<close> of lines 49 to 53. A \<open>?.\<close> chain on an absent field gives
  \<open>undefined\<close>, which is falsy and different from every string.
\<close>

definition isTurkish :: "RadioStation \<Rightarrow> bool" where
  "isTurkish s =
     (countrycode s = ''TR''
      \<or> (case country s of None \<Rightarrow> False | Some c \<Rightarrow> toLowerCase c = ''turkey'')
      \<or> (case tags s of None \<Rightarrow> False | Some t \<Rightarrow> includes_str (toLowerCase t) ''turkey'')
      \<or> (case tags s of None \<Rightarrow> False | Some t \<Rightarrow> includes_str (toLowerCase t) ''turkish''))"

text \<open>The comparator of lines 48 to 61.\<close>

definition compareTR :: "RadioStation \<Rightarrow> RadioStation \<Rightarrow> int" where
  "compareTR a b =
     (let aIsTR = isTurkish a; bIsTR = isTurkish b in
      if aIsTR \<and> \<not> bIsTR then -1
      else if \<not> aIsTR \<and> bIsTR then 1
      else 0)"

text \<open>
  \<open>Array.prototype.sort\<close> is stable (ECMAScript 2019): elements that compare equal keep
  their order. With a comparator that is a consistent ordering every stable sort gives the
  same array; it is written here as insertion from the right, where an element goes in
  front of the first element it does not compare greater than.
\<close>

fun js_insert :: "('a \<Rightarrow> 'a \<Rightarrow> int) \<Rightarrow> 'a \<Rightarrow> 'a list \<Rightarrow> 'a list" where
  "js_insert cmp x [] = [x]"
| "js_insert cmp x (y # ys) = (if cmp x y \<le> 0 then x # y # ys else y # js_insert cmp x ys)"

definition js_sort :: "('a \<Rightarrow> 'a \<Rightarrow> int) \<Rightarrow> 'a list \<Rightarrow> 'a list" where
  "js_sort cmp xs = foldr (js_insert cmp) xs []"

subsection \<open>The pipeline\<close>

text \<open>
  Lines 34 to 61 on the merged array: deduplicate with the geo test, read the values back
  in insertion order, sort.
\<close>

definition finalStations :: "RadioStation list \<Rightarrow> RadioStation list" where
  "finalStations allStations = js_sort compareTR (map_values (uniqueStations allStations))"

text \<open>
  \<open>init\<close> merges its three result sets as
  \<open>[...turkishData, ...turkishTagData, ...globalData]\<close>; \<open>reconcile\<close> is the same
  pipeline on any sequence of result sets, concatenated in the order given.
\<close>

definition reconcile :: "RadioStation list list \<Rightarrow> RadioStation list" where
  "reconcile resultSets = finalStations (concat resultSets)"

definition init_stations ::
  "RadioStation list \<Rightarrow> RadioStation list \<Rightarrow> RadioStation list \<Rightarrow> RadioStation list" where
  "init_stations globalData turkishData turkishTagData =
     reconcile [turkishData, turkishTagData, globalData]"

text \<open>The filter of \<open>handleSearch\<close> (line 122) and of \<open>handleAIMood\<close> (line 141).\<close>

definition filterResults :: "RadioStation list \<Rightarrow> RadioStation list" where
  "filterResults results = filter (\<lambda>s. truthy_num (geo_lat s) \<and> truthy_num (geo_long s)) results"

section \<open>Services (radioService.ts, geminiService.ts)\<close>

text \<open>
  What a \<open>throw\<close> or a rejected promise carries. A function that can throw returns
  \<open>exn + 'a\<close>, with \<open>Inl\<close> for the exception.
\<close>

datatype exn = Error string | FetchRejected | JsonSyntaxError | InferenceRejected | TypeError

text \<open>
  Reading a property: of \<open>null\<close> it throws a TypeError, of an object it gives the value
  under the key or \<open>undefined\<close>, and of a boolean, a number, a string or an array it
  gives \<open>undefined\<close> for the three names read here (\<open>explanation\<close>, \<open>country\<close>,
  \<open>tag\<close>). \<open>read_prop\<close> is the read of a value already known not to be \<open>null\<close>.
\<close>

fun get_prop :: "json \<Rightarrow> string \<Rightarrow> exn + json option" where
  "get_prop JNull k = Inl TypeError"
| "get_prop (JObj kvs) k = Inr (map_of kvs k)"
| "get_prop (JBool b) k = Inr None"
| "get_prop (JNum x) k = Inr None"
| "get_prop (JStr s) k = Inr None"
| "get_prop (JArr vs) k = Inr None"

definition read_prop :: "json \<Rightarrow> string \<Rightarrow> json option" where
  "read_prop v k = (case get_prop v k of Inl e \<Rightarrow> None | Inr x \<Rightarrow> x)"

text \<open>
  The request URL, without its constant part: \<open>/search\<close> with the limit and, for each
  of the \<open>country\<close>, \<open>tag\<close> and \<open>name\<close> parameters that were appended, the
  value handed to \<open>encodeURIComponent\<close>.
\<close>

datatype request =
  TopStations nat
| Search nat "json option" "json option" "json option"

text \<open>
  The outcome of \<open>fetch\<close>: the promise rejects, or it resolves to a response with its
  \<open>ok\<close> flag and a body that \<open>response.json()\<close> parses or rejects.
\<close>

datatype json_body = BadJson | Json "RadioStation list"

datatype fetch_result = Rejected | Response bool json_body

text \<open>
  The network answers a request; the answer may depend on how many requests went out
  before. Every request is appended to the list of requests sent.
\<close>

type_synonym network = "nat \<Rightarrow> request \<Rightarrow> fetch_result"

definition read_response :: "string \<Rightarrow> fetch_result \<Rightarrow> exn + RadioStation list" where
  "read_response msg r =
     (case r of
        Rejected \<Rightarrow> Inl FetchRejected
      | Response ok body \<Rightarrow>
          if \<not> ok then Inl (Error msg)
          else (case body of BadJson \<Rightarrow> Inl JsonSyntaxError | Json v \<Rightarrow> Inr v))"

definition fetchTopStations ::
  "network \<Rightarrow> nat \<Rightarrow> request list \<Rightarrow> (exn + RadioStation list) \<times> request list" where
  "fetchTopStations net limit sent =
     (let url = TopStations limit in
      (case read_response ''Failed to fetch stations'' (net (length sent) url) of
         Inl error \<Rightarrow> Inr []
       | Inr v \<Rightarrow> Inr v,
       sent @ [url]))"

definition search_url :: "StationFilter \<Rightarrow> request" where
  "search_url f =
     Search (case f_limit f of None \<Rightarrow> 20 | Some n \<Rightarrow> if n = 0 then 20 else n)
       (if truthy (f_country f) then f_country f else None)
       (if truthy (f_tag f) then f_tag f else None)
       (if truthy (f_name f) then f_name f else None)"

definition searchStations ::
  "network \<Rightarrow> StationFilter \<Rightarrow> request list \<Rightarrow> (exn + RadioStation list) \<times> request list" where
  "searchStations net f sent =
     (let url = search_url f in
      (case read_response ''Failed to search stations'' (net (length sent) url) of
         Inl error \<Rightarrow> Inr []
       | Inr v \<Rightarrow> Inr v,
       sent @ [url]))"

text \<open>
  The outcome of \<open>ai.models.generateContent\<close>: the promise rejects, or the response
  has a \<open>text\<close> that may be \<open>undefined\<close>. \<open>JSON.parse\<close> is a parameter:
  \<open>None\<close> when it throws, and the parsed value, whatever its shape, otherwise. The
  inference is a function of the user's text, the rest of the prompt and the configuration
  being constant.
\<close>

datatype gen_result = GenRejected | GenResponse "string option"

type_synonym json_parse = "string \<Rightarrow> json option"

text \<open>The object returned by the \<open>catch\<close> of \<open>getMoodRecommendation\<close>, line 72.\<close>

definition mood_fallback :: json where
  "mood_fallback =
     JObj [(''explanation'',
            JStr (''Couldn'' @ [CHR 0x27] @ ''t quite catch that vibe. Try ''
              @ [CHR 0x27] @ ''Jazz from France'' @ [CHR 0x27] @ ''.'')),
           (''tag'', JStr ''pop'')]"

text \<open>The body of the \<open>try\<close>, lines 38 to 68, and the function with its \<open>catch\<close>.\<close>

definition getMoodRecommendation_try ::
  "json_parse \<Rightarrow> (string \<Rightarrow> gen_result) \<Rightarrow> string \<Rightarrow> exn + json" where
  "getMoodRecommendation_try parse ai userQuery =
     (case ai userQuery of
        GenRejected \<Rightarrow> Inl InferenceRejected
      | GenResponse text \<Rightarrow>
          (case text of
             None \<Rightarrow> Inl (Error ''No text returned'')
           | Some t \<Rightarrow>
               if t = [] then Inl (Error ''No text returned'')
               else (case parse t of
                       None \<Rightarrow> Inl JsonSyntaxError
                     | Some r \<Rightarrow> Inr r)))"

definition getMoodRecommendation ::
  "json_parse \<Rightarrow> (string \<Rightarrow> gen_result) \<Rightarrow> string \<Rightarrow> exn + json" where
  "getMoodRecommendation parse ai userQuery =
     (case getMoodRecommendation_try parse ai userQuery of
        Inl error \<Rightarrow> Inr mood_fallback
      | Inr r \<Rightarrow> Inr r)"

text \<open>\<open>getStationInsight\<close>: \<open>response.text || "Enjoy the tunes!"\<close>, and a fixed line on failure.\<close>

definition getStationInsight ::
  "(string \<Rightarrow> string option \<Rightarrow> string option \<Rightarrow> gen_result) \<Rightarrow>
     string \<Rightarrow> string option \<Rightarrow> string option \<Rightarrow> string" where
  "getStationInsight gen stationName country' tags' =
     (case gen stationName country' tags' of
        GenRejected \<Rightarrow> ''Tuning into global frequencies...''
      | GenResponse text \<Rightarrow>
          (case text of
             None \<Rightarrow> ''Enjoy the tunes!''
           | Some t \<Rightarrow> if t = [] then ''Enjoy the tunes!'' else t))"

text \<open>A transport failure: the source is unreachable, or the status is not a success.\<close>

fun transport_failure :: "fetch_result \<Rightarrow> bool" where
  "transport_failure Rejected = True"
| "transport_failure (Response ok body) = (\<not> ok)"

section \<open>Application state and handlers (App.tsx)\<close>

record audio =
  a_src :: string
  a_paused :: bool
  a_volume :: real

definition audio_pause :: "audio \<Rightarrow> audio" where
  "audio_pause a = a\<lparr>a_paused := True\<rparr>"

definition audio_play :: "audio \<Rightarrow> audio" where
  "audio_play a = a\<lparr>a_paused := False\<rparr>"

text \<open>
  \<open>aiInsight\<close> is declared a string; \<open>handleAIMood\<close> stores in it whatever the
  response has under \<open>explanation\<close>, so it is a value at run time.
\<close>

record app_state =
  stations :: "RadioStation list"
  currentStation :: "RadioStation option"
  isPlaying :: bool
  volume :: real
  aiInsight :: "json option"
  loading :: bool
  audioRef :: audio

text \<open>
  \<open>handleStationSelect\<close>, lines 91 to 108. \<open>currentStation?.stationuuid\<close> is
  \<open>undefined\<close> when nothing is selected, and then differs from every identifier.
\<close>

definition handleStationSelect ::
  "(string \<Rightarrow> string option \<Rightarrow> string option \<Rightarrow> gen_result) \<Rightarrow>
     RadioStation \<Rightarrow> app_state \<Rightarrow> app_state" where
  "handleStationSelect gen station st =
     (if (case currentStation st of None \<Rightarrow> False
          | Some c \<Rightarrow> stationuuid c = stationuuid station)
      then (if isPlaying st then st\<lparr>audioRef := audio_pause (audioRef st)\<rparr>
            else st\<lparr>audioRef := audio_play (audioRef st)\<rparr>)
      else
        (let st1 = st\<lparr>currentStation := Some station\<rparr>;
             st2 = st1\<lparr>audioRef := audio_play ((audioRef st1)\<lparr>a_src := url_resolved station\<rparr>)\<rparr>;
             st3 = st2\<lparr>aiInsight := Some (JStr ''Tuning in...'')\<rparr>;
             insight = getStationInsight gen (name station) (country station) (tags station)
         in st3\<lparr>aiInsight := Some (JStr insight)\<rparr>))"

text \<open>
  The filter object of lines 136 to 138, and the looser one of line 145, for a response
  that is not \<open>null\<close>.
\<close>

definition mood_filter :: "json \<Rightarrow> StationFilter" where
  "mood_filter response =
     (let filter0 = \<lparr>f_country = None, f_tag = None, f_name = None, f_limit = Some 50\<rparr>;
          filter1 = (if truthy (read_prop response ''country'')
                     then filter0\<lparr>f_country := read_prop response ''country''\<rparr> else filter0);
          filter2 = (if truthy (read_prop response ''tag'')
                     then filter1\<lparr>f_tag := read_prop response ''tag''\<rparr> else filter1)
      in filter2)"

definition loose_filter :: "json \<Rightarrow> StationFilter" where
  "loose_filter response =
     \<lparr>f_country = None, f_tag = read_prop response ''tag'', f_name = None, f_limit = Some 50\<rparr>"

text \<open>
  \<open>handleAIMood\<close>, lines 129 to 151. The handler has no \<open>try\<close>: an exception of a
  call it awaits, or of the first read of the response on line 134, leaves it at that
  point, which is the first component \<open>Some e\<close>.
\<close>

definition handleAIMood ::
  "json_parse \<Rightarrow> (string \<Rightarrow> gen_result) \<Rightarrow> network \<Rightarrow> string \<Rightarrow> app_state \<Rightarrow> request list
     \<Rightarrow> exn option \<times> app_state \<times> request list" where
  "handleAIMood parse ai net query st sent =
     (let st1 = st\<lparr>loading := True,
                    aiInsight := Some (JStr ''AI is finding your frequency...'')\<rparr> in
      case getMoodRecommendation parse ai query of
        Inl e \<Rightarrow> (Some e, st1, sent)
      | Inr response \<Rightarrow>
          (case get_prop response ''explanation'' of
             Inl e \<Rightarrow> (Some e, st1, sent)
           | Inr explanation \<Rightarrow>
               (let st2 = st1\<lparr>aiInsight := explanation\<rparr> in
                case searchStations net (mood_filter response) sent of
                  (Inl e, sent1) \<Rightarrow> (Some e, st2, sent1)
                | (Inr results, sent1) \<Rightarrow>
                    (let mapped = filterResults results in
                     if mapped = [] \<and> truthy (read_prop response ''tag'')
                     then (case searchStations net (loose_filter response) sent1 of
                             (Inl e, sent2) \<Rightarrow> (Some e, st2, sent2)
                           | (Inr looseResults, sent2) \<Rightarrow>
                               (None,
                                st2\<lparr>stations := filter (\<lambda>s. truthy_num (geo_lat s)) looseResults,
                                    loading := False\<rparr>,
                                sent2))
                     else (None, st2\<lparr>stations := mapped, loading := False\<rparr>, sent1)))))"

section \<open>Globe (components/Globe3D.tsx)\<close>

record Vector3 =
  vx :: real
  vy :: real
  vz :: real

text \<open>
  Of an object of the scene only the rotation about the y axis is ever written. A ref is
  \<open>None\<close> while its object is not mounted.
\<close>

record Object3D =
  rotation_y :: real

record scene =
  earthRef :: "Object3D option"
  cloudsRef :: "Object3D option"
  rotatorRef :: "Object3D option"

definition rotate_by :: "real \<Rightarrow> Object3D option \<Rightarrow> Object3D option" where
  "rotate_by d r =
     (case r of None \<Rightarrow> None | Some ob \<Rightarrow> Some (ob\<lparr>rotation_y := rotation_y ob + d\<rparr>))"

text \<open>The frame callback of \<open>RealisticEarth\<close>, lines 115 to 122.\<close>

definition RealisticEarth_useFrame :: "scene \<Rightarrow> scene" where
  "RealisticEarth_useFrame s =
     (let s1 = s\<lparr>earthRef := rotate_by 0.0005 (earthRef s)\<rparr>
      in s1\<lparr>cloudsRef := rotate_by 0.0007 (cloudsRef s1)\<rparr>)"

text \<open>The frame callback of \<open>EarthRotator\<close>, lines 223 to 227.\<close>

definition EarthRotator_useFrame :: "scene \<Rightarrow> scene" where
  "EarthRotator_useFrame s = s\<lparr>rotatorRef := rotate_by 0.0005 (rotatorRef s)\<rparr>"

text \<open>One rendered frame runs every subscribed callback; \<open>frames n\<close> renders \<open>n\<close> frames.\<close>

definition frame :: "scene \<Rightarrow> scene" where
  "frame s = EarthRotator_useFrame (RealisticEarth_useFrame s)"

fun frames :: "nat \<Rightarrow> scene \<Rightarrow> scene" where
  "frames 0 s = s"
| "frames (Suc n) s = frames n (frame s)"

text \<open>
  The scene when the canvas has mounted: the mesh, the cloud shell and the marker group
  are created by the same commit, each with the default rotation.
\<close>

definition mounted_scene :: scene where
  "mounted_scene =
     \<lparr>earthRef = Some \<lparr>rotation_y = 0\<rparr>, cloudsRef = Some \<lparr>rotation_y = 0\<rparr>,
      rotatorRef = Some \<lparr>rotation_y = 0\<rparr>\<rparr>"

text \<open>The transform of an object rotated by an angle about the y axis, applied to a point.\<close>

definition rotate_y :: "real \<Rightarrow> Vector3 \<Rightarrow> Vector3" where
  "rotate_y a v =
     \<lparr>vx = cos a * vx v + sin a * vz v, vy = vy v, vz = cos a * vz v - sin a * vx v\<rparr>"

definition world_point :: "Object3D option \<Rightarrow> Vector3 \<Rightarrow> Vector3 option" where
  "world_point r v = (case r of None \<Rightarrow> None | Some ob \<Rightarrow> Some (rotate_y (rotation_y ob) v))"

section \<open>Sample data\<close>

definition blank_station :: RadioStation where
  "blank_station =
     \<lparr>stationuuid = '''', name = '''', url = '''', url_resolved = '''', homepage = '''',
      favicon = '''', tags = Some '''', country = Some '''', countrycode = '''', state = '''',
      language = '''', votes = 0, codec = '''', bitrate = 0, geo_lat = None, geo_long = None\<rparr>"

definition foo_station :: RadioStation where
  "foo_station = blank_station\<lparr>stationuuid := ''1'', name := ''Foo''\<rparr>"

definition bar_station :: RadioStation where
  "bar_station =
     blank_station\<lparr>stationuuid := ''1'', name := ''Bar'', geo_lat := Some 41, geo_long := Some 29\<rparr>"

definition equator_station :: RadioStation where
  "equator_station =
     blank_station\<lparr>stationuuid := ''eq'', name := ''Equator FM'', countrycode := ''UG'',
       geo_lat := Some 0, geo_long := Some 32.58\<rparr>"

definition lat_only_station :: RadioStation where
  "lat_only_station =
     blank_station\<lparr>stationuuid := ''j1'', name := ''Jazz 24'', tags := Some ''jazz'',
       geo_lat := Some 35.68\<rparr>"

definition p1 :: RadioStation where
  "p1 = blank_station\<lparr>stationuuid := ''p1'', countrycode := ''TR'',
       geo_lat := Some 41, geo_long := Some 29\<rparr>"

definition p2 :: RadioStation where
  "p2 = blank_station\<lparr>stationuuid := ''p2'', tags := Some ''pop,Turkish'',
       geo_lat := Some 39.9, geo_long := Some 32.8\<rparr>"

definition o1 :: RadioStation where
  "o1 = blank_station\<lparr>stationuuid := ''o1'', countrycode := ''FR'',
       geo_lat := Some 48.8, geo_long := Some 2.3\<rparr>"

definition o2 :: RadioStation where
  "o2 = blank_station\<lparr>stationuuid := ''o2'', countrycode := ''JP'', country := Some ''Japan'',
       geo_lat := Some 35.68, geo_long := Some 139.7\<rparr>"

definition blank_app :: app_state where
  "blank_app =
     \<lparr>stations = [], currentStation = None, isPlaying = False, volume = 0.5,
      aiInsight = Some (JStr ''Welcome! Select a station to begin.''), loading = False,
      audioRef = \<lparr>a_src = '''', a_paused = True, a_volume = 0.5\<rparr>\<rparr>"

text \<open>Two texts an inference may return, with the values \<open>JSON.parse\<close> gives for them.\<close>

definition quoted :: "string \<Rightarrow> string" where
  "quoted s = CHR 0x22 # s @ [CHR 0x22]"

definition jazz_text :: string where
  "jazz_text =
     ''{'' @ quoted ''country'' @ '':'' @ quoted ''Japan'' @ '','' @ quoted ''tag'' @ '':''
       @ quoted ''jazz'' @ '','' @ quoted ''explanation'' @ '':''
       @ quoted ''smoky downtempo vibes'' @ ''}''"

definition jazz_response :: json where
  "jazz_response =
     JObj [(''country'', JStr ''Japan''), (''tag'', JStr ''jazz''),
           (''explanation'', JStr ''smoky downtempo vibes'')]"

definition uganda_text :: string where
  "uganda_text =
     ''{'' @ quoted ''country'' @ '':'' @ quoted ''Uganda'' @ '','' @ quoted ''tag'' @ '':''
       @ quoted ''pop'' @ '','' @ quoted ''explanation'' @ '':''
       @ quoted ''bright equatorial pop'' @ ''}''"

definition uganda_response :: json where
  "uganda_response =
     JObj [(''country'', JStr ''Uganda''), (''tag'', JStr ''pop''),
           (''explanation'', JStr ''bright equatorial pop'')]"

text \<open>
  \<open>JSON.parse\<close> on the texts used below: the two objects, the literal \<open>null\<close>, and a
  SyntaxError on anything else.
\<close>

definition jazz_parse :: json_parse where
  "jazz_parse t =
     (if t = jazz_text then Some jazz_response
      else if t = uganda_text then Some uganda_response
      else if t = ''null'' then Some JNull
      else None)"

text \<open>Inferences that answer every request with one text.\<close>

definition jazz_ai :: "string \<Rightarrow> gen_result" where
  "jazz_ai q = GenResponse (Some jazz_text)"

definition uganda_ai :: "string \<Rightarrow> gen_result" where
  "uganda_ai q = GenResponse (Some uganda_text)"

definition null_ai :: "string \<Rightarrow> gen_result" where
  "null_ai q = GenResponse (Some ''null'')"

text \<open>
  A network whose first answer is empty and whose later answers hold one record; a network
  whose first answer is one list and whose later answers are another; a network that is
  unreachable.
\<close>

definition empty_then :: "RadioStation \<Rightarrow> network" where
  "empty_then s n r = (if n = 0 then Response True (Json []) else Response True (Json [s]))"

definition first_then :: "RadioStation list \<Rightarrow> RadioStation list \<Rightarrow> network" where
  "first_then a b n r = (if n = 0 then Response True (Json a) else Response True (Json b))"

definition offline :: network where
  "offline n r = Rejected"

section \<open>Reconciliation: auxiliary function for the proofs\<close>

text \<open>
  The records that pass the geo test and whose identifier is neither in \<open>seen\<close> nor on
  an earlier record that passed: what the deduplication loop adds to a map with the keys
  \<open>seen\<close>.
\<close>

fun first_valid :: "string set \<Rightarrow> RadioStation list \<Rightarrow> RadioStation list" where
  "first_valid seen [] = []"
| "first_valid seen (s # ss) =
     (if geo_ok s \<and> stationuuid s \<notin> seen then s # first_valid (insert (stationuuid s) seen) ss
      else first_valid seen ss)"

section \<open>Reconciliation: the deduplication loop\<close>

lemma map_has_iff: "map_has m k \<longleftrightarrow> k \<in> fst ` set m"
  by (induction m k rule: map_has.induct) auto

lemma map_set_fresh: "\<not> map_has m k \<Longrightarrow> map_set m k v = m @ [(k, v)]"
  by (induction m k v rule: map_set.induct) auto

lemma dedup_step_eq:
  "dedup_step s m =
     (if geo_ok s \<and> stationuuid s \<notin> fst ` set m then m @ [(stationuuid s, s)] else m)"
  by (simp add: dedup_step_def geo_ok_def map_has_iff map_set_fresh)

lemma fold_dedup_step:
  "fold dedup_step xs m = m @ map (\<lambda>s. (stationuuid s, s)) (first_valid (fst ` set m) xs)"
proof (induction xs arbitrary: m)
  case Nil
  then show ?case by simp
next
  case (Cons x xs)
  show ?case
  proof (cases "geo_ok x \<and> stationuuid x \<notin> fst ` set m")
    case True
    then have "dedup_step x m = m @ [(stationuuid x, x)]"
      by (simp add: dedup_step_eq)
    then have "fold dedup_step (x # xs) m = fold dedup_step xs (m @ [(stationuuid x, x)])"
      by simp
    also have "\<dots> = (m @ [(stationuuid x, x)]) @
        map (\<lambda>s. (stationuuid s, s)) (first_valid (fst ` set (m @ [(stationuuid x, x)])) xs)"
      by (rule Cons.IH)
    finally show ?thesis using True by simp
  next
    case False
    then have "dedup_step x m = m"
      by (auto simp: dedup_step_eq)
    then have "fold dedup_step (x # xs) m = fold dedup_step xs m"
      by simp
    then show ?thesis using False by (auto simp: Cons.IH)
  qed
qed

lemma values_uniqueStations: "map_values (uniqueStations xs) = first_valid {} xs"
  by (simp add: uniqueStations_def map_values_def fold_dedup_step comp_def)

lemma first_valid_member:
  "s \<in> set (first_valid seen xs) \<Longrightarrow> geo_ok s \<and> stationuuid s \<notin> seen \<and> s \<in> set xs"
  by (induction xs arbitrary: seen) (auto split: if_splits)

lemma first_valid_distinct: "distinct (map stationuuid (first_valid seen xs))"
  by (induction xs arbitrary: seen) (auto dest: first_valid_member)

lemma first_valid_find:
  "s \<in> set (first_valid seen xs) \<longleftrightarrow>
     (stationuuid s \<notin> seen \<and> find (\<lambda>t. geo_ok t \<and> stationuuid t = stationuuid s) xs = Some s)"
proof (induction xs arbitrary: seen)
  case Nil
  then show ?case by simp
next
  case (Cons x xs)
  show ?case
    by (auto simp: Cons.IH dest: first_valid_member)
qed

lemma first_valid_id:
  "list_all geo_ok xs \<Longrightarrow> distinct (map stationuuid xs) \<Longrightarrow> stationuuid ` set xs \<inter> seen = {}
    \<Longrightarrow> first_valid seen xs = xs"
  by (induction xs arbitrary: seen) auto

lemma geo_ok_has_coords: "geo_ok s \<Longrightarrow> has_coords s"
  by (cases "geo_lat s"; cases "geo_long s") (simp_all add: geo_ok_def has_coords_def)

section \<open>Reconciliation: the sort\<close>

lemma js_insert_priority: "isTurkish x \<Longrightarrow> js_insert compareTR x ys = x # ys"
  by (cases ys) (auto simp: compareTR_def Let_def)

lemma js_insert_ordinary:
  "\<not> isTurkish x \<Longrightarrow> list_all isTurkish ps \<Longrightarrow> list_all (\<lambda>s. \<not> isTurkish s) qs
    \<Longrightarrow> js_insert compareTR x (ps @ qs) = ps @ x # qs"
proof (induction ps)
  case Nil
  then show ?case by (cases qs) (auto simp: compareTR_def Let_def)
next
  case (Cons p ps)
  then show ?case by (auto simp: compareTR_def Let_def)
qed

lemma js_sort_partition:
  "js_sort compareTR xs = filter isTurkish xs @ filter (\<lambda>s. \<not> isTurkish s) xs"
proof (induction xs)
  case Nil
  then show ?case by (simp add: js_sort_def)
next
  case (Cons x xs)
  have step: "js_sort compareTR (x # xs) = js_insert compareTR x (js_sort compareTR xs)"
    by (simp add: js_sort_def)
  show ?case
  proof (cases "isTurkish x")
    case True
    then show ?thesis by (simp add: step Cons.IH js_insert_priority)
  next
    case False
    then show ?thesis
      by (simp add: step Cons.IH js_insert_ordinary list_all_iff)
  qed
qed

lemma reconcile_eq:
  "reconcile xss =
     filter isTurkish (first_valid {} (concat xss))
     @ filter (\<lambda>s. \<not> isTurkish s) (first_valid {} (concat xss))"
  by (simp add: reconcile_def finalStations_def js_sort_partition values_uniqueStations)

lemma set_reconcile: "set (reconcile xss) = set (first_valid {} (concat xss))"
  by (auto simp: reconcile_eq)

lemma distinct_partition:
  "distinct (map f xs) \<Longrightarrow> distinct (map f (filter P xs @ filter (\<lambda>x. \<not> P x) xs))"
  by (induction xs) auto

lemma reconcile_distinct: "distinct (map stationuuid (reconcile xss))"
  unfolding reconcile_eq by (rule distinct_partition) (rule first_valid_distinct)

lemma reconcile_geo_ok: "list_all geo_ok (reconcile xss)"
  by (auto simp: list_all_iff set_reconcile dest: first_valid_member)

lemma filter_partition_priority:
  "filter P (filter P xs @ filter (\<lambda>x. \<not> P x) xs) = filter P xs"
  by (induction xs) auto

lemma filter_partition_ordinary:
  "filter (\<lambda>x. \<not> P x) (filter P xs @ filter (\<lambda>x. \<not> P x) xs) = filter (\<lambda>x. \<not> P x) xs"
  by (induction xs) auto

lemma reconcile_again: "reconcile [reconcile xss] = reconcile xss"
proof -
  let ?X = "reconcile xss"
  have fv: "first_valid {} ?X = ?X"
    by (rule first_valid_id) (simp_all add: reconcile_geo_ok reconcile_distinct)
  have "reconcile [?X] = filter isTurkish ?X @ filter (\<lambda>s. \<not> isTurkish s) ?X"
    by (simp add: reconcile_eq [of "[?X]"] fv)
  also have "\<dots> = ?X"
    by (simp add: reconcile_eq [of xss] filter_partition_priority filter_partition_ordinary)
  finally show ?thesis .
qed

lemma reconcile_has_coords: "s \<in> set (reconcile xss) \<Longrightarrow> has_coords s"
  by (auto simp: set_reconcile dest: first_valid_member geo_ok_has_coords)

lemma filterResults_has_coords: "s \<in> set (filterResults results) \<Longrightarrow> has_coords s"
  by (auto simp: filterResults_def geo_ok_def [symmetric] dest: geo_ok_has_coords)

lemma filterResults_keeps: "s \<in> set results \<Longrightarrow> geo_ok s \<Longrightarrow> s \<in> set (filterResults results)"
  by (simp add: filterResults_def geo_ok_def)

section \<open>Claims on the reconciliation\<close>

text \<open>
  C3. The geo-validity filter is claimed to keep every record whose latitude and longitude
  are both present, the value 0 included. The test of the code is JavaScript truthiness,
  and 0 is falsy: a station on the equator has both coordinates and is dropped, by
  \<open>reconcile\<close> and by \<open>filterResults\<close> alike.
\<close>

theorem C3_zero_latitude_dropped:
  "has_coords equator_station
   \<and> reconcile [[equator_station]] = []
   \<and> filterResults [equator_station] = []"
  by (simp add: has_coords_def equator_station_def blank_station_def reconcile_eq geo_ok_def
      filterResults_def)

text \<open>
  C4, as stated: of two records with one identifier the record of the earlier source is
  kept. It fails when the earlier record does not pass the geo test: the loop tests the
  coordinates before it looks the identifier up, so the later record is the one stored.
\<close>

theorem C4_counterexample:
  "stationuuid foo_station = stationuuid bar_station
   \<and> foo_station \<notin> set (reconcile [[foo_station], [bar_station]])
   \<and> bar_station \<in> set (reconcile [[foo_station], [bar_station]])"
  by (simp add: foo_station_def bar_station_def blank_station_def reconcile_eq geo_ok_def)

text \<open>
  C4, amended: the output of \<open>reconcile\<close> contains no two records with the same
  identifier, and among the records that pass the geo test the first occurrence wins:
  a record is in the output exactly when it is the first record of the concatenation
  that passes the geo test and carries its identifier.
\<close>

theorem C4_first_valid_occurrence_wins:
  "distinct (map stationuuid (reconcile xss))
   \<and> (s \<in> set (reconcile xss) \<longleftrightarrow>
        find (\<lambda>t. geo_ok t \<and> stationuuid t = stationuuid s) (concat xss) = Some s)"
  by (simp add: reconcile_distinct set_reconcile first_valid_find)

theorem C4_witness:
  "distinct (map stationuuid (reconcile [[bar_station, foo_station], [foo_station, bar_station]]))
   \<and> bar_station \<in> set (reconcile [[bar_station, foo_station], [foo_station, bar_station]])"
  using C4_first_valid_occurrence_wins
    [of "[[bar_station, foo_station], [foo_station, bar_station]]" bar_station]
  by (simp add: foo_station_def bar_station_def blank_station_def geo_ok_def)

text \<open>
  C5. The priority reorder is a stable partition: the sorted array is the priority
  records in their original order followed by the ordinary records in their original
  order. In particular four distinct geo-valid records given as priority, ordinary,
  priority, ordinary come out as the two priority records and then the two ordinary ones.
\<close>

theorem C5_stable_partition:
  "js_sort compareTR xs = filter isTurkish xs @ filter (\<lambda>s. \<not> isTurkish s) xs
   \<and> reconcile xss =
       filter isTurkish (map_values (uniqueStations (concat xss)))
       @ filter (\<lambda>s. \<not> isTurkish s) (map_values (uniqueStations (concat xss)))
   \<and> (isTurkish a \<and> \<not> isTurkish b \<and> isTurkish c \<and> \<not> isTurkish d
        \<and> list_all geo_ok [a, b, c, d] \<and> distinct (map stationuuid [a, b, c, d])
        \<longrightarrow> reconcile [[a, b, c, d]] = [a, c, b, d])"
  by (simp add: js_sort_partition reconcile_def finalStations_def values_uniqueStations)

theorem C5_witness:
  "reconcile [[p1, o1, p2, o2]] = [p1, p2, o1, o2]"
  using C5_stable_partition [of "[]" "[]" p1 o1 p2 o2]
  by (simp add: p1_def p2_def o1_def o2_def blank_station_def geo_ok_def isTurkish_def
      toLowerCase_def lower_char_def char_of_def bit_0)

text \<open>
  C6. \<open>reconcile\<close> is idempotent: applied to its own output as a single sequence it
  returns that output, in the same order; and so it does on every sequence with unique
  identifiers whose records all pass the geo test and whose priority records come first.
\<close>

theorem C6_reconcile_idempotent:
  "reconcile [reconcile xss] = reconcile xss
   \<and> (distinct (map stationuuid X) \<and> list_all geo_ok X
        \<and> X = filter isTurkish X @ filter (\<lambda>s. \<not> isTurkish s) X
        \<longrightarrow> reconcile [X] = X)"
proof -
  have "reconcile [X] = X"
    if "distinct (map stationuuid X)" "list_all geo_ok X"
      and part: "X = filter isTurkish X @ filter (\<lambda>s. \<not> isTurkish s) X"
  proof -
    have "first_valid {} X = X"
      using that by (simp add: first_valid_id)
    then have "reconcile [X] = filter isTurkish X @ filter (\<lambda>s. \<not> isTurkish s) X"
      by (simp add: reconcile_eq)
    then show ?thesis using part by simp
  qed
  then show ?thesis by (simp add: reconcile_again)
qed

theorem C6_witness:
  "reconcile [reconcile [[o1, p1], [p1, o2]]] = reconcile [[o1, p1], [p1, o2]]
   \<and> reconcile [[p1, o1]] = [p1, o1]"
  using C6_reconcile_idempotent [of "[[o1, p1], [p1, o2]]" "[p1, o1]"]
  by (simp add: p1_def o1_def blank_station_def geo_ok_def isTurkish_def
      toLowerCase_def lower_char_def char_of_def bit_0)

section \<open>Globe: rotation\<close>

lemma rotate_by_add: "rotate_by a (rotate_by b r) = rotate_by (b + a) r"
  by (cases r) (simp_all add: rotate_by_def add.assoc)

lemma frame_refs:
  "earthRef (frame s) = rotate_by 0.0005 (earthRef s)"
  "cloudsRef (frame s) = rotate_by 0.0007 (cloudsRef s)"
  "rotatorRef (frame s) = rotate_by 0.0005 (rotatorRef s)"
  by (simp_all add: frame_def EarthRotator_useFrame_def RealisticEarth_useFrame_def Let_def)

lemma frames_earth: "earthRef (frames n s) = rotate_by (real n * 0.0005) (earthRef s)"
proof (induction n arbitrary: s)
  case 0
  show ?case by (cases "earthRef s") (simp_all add: rotate_by_def)
next
  case (Suc n)
  have arith: "0.0005 + real n * 0.0005 = real (Suc n) * (0.0005::real)"
    by (simp add: algebra_simps)
  have "earthRef (frames (Suc n) s) = rotate_by (real n * 0.0005) (rotate_by 0.0005 (earthRef s))"
    by (simp only: frames.simps Suc.IH frame_refs)
  also have "\<dots> = rotate_by (0.0005 + real n * 0.0005) (earthRef s)"
    by (rule rotate_by_add)
  finally show ?case by (simp only: arith)
qed

lemma frames_rotator: "rotatorRef (frames n s) = rotate_by (real n * 0.0005) (rotatorRef s)"
proof (induction n arbitrary: s)
  case 0
  show ?case by (cases "rotatorRef s") (simp_all add: rotate_by_def)
next
  case (Suc n)
  have arith: "0.0005 + real n * 0.0005 = real (Suc n) * (0.0005::real)"
    by (simp add: algebra_simps)
  have "rotatorRef (frames (Suc n) s) = rotate_by (real n * 0.0005) (rotate_by 0.0005 (rotatorRef s))"
    by (simp only: frames.simps Suc.IH frame_refs)
  also have "\<dots> = rotate_by (0.0005 + real n * 0.0005) (rotatorRef s)"
    by (rule rotate_by_add)
  finally show ?case by (simp only: arith)
qed

text \<open>
  C1. Every frame adds the same increment to the rotation of the sphere mesh and to the
  rotation of the marker container. From the mounted scene, after any number N of frames,
  both rotations are N times the increment, so the transform of the container and the
  transform of the mesh send every point of the unrotated frame to the same point; the
  same holds from any scene in which both are mounted with equal rotations.
\<close>

theorem C1_rotation_sync:
  "earthRef (frames N mounted_scene) = Some \<lparr>rotation_y = real N * 0.0005\<rparr>
   \<and> rotatorRef (frames N mounted_scene) = Some \<lparr>rotation_y = real N * 0.0005\<rparr>
   \<and> world_point (rotatorRef (frames N mounted_scene)) p
       = world_point (earthRef (frames N mounted_scene)) p
   \<and> (earthRef s = Some e \<and> rotatorRef s = Some g \<and> rotation_y e = rotation_y g \<longrightarrow>
        earthRef (frame s) = Some (e\<lparr>rotation_y := rotation_y e + 0.0005\<rparr>)
        \<and> rotatorRef (frame s) = Some (g\<lparr>rotation_y := rotation_y g + 0.0005\<rparr>)
        \<and> map_option rotation_y (rotatorRef (frames N s))
            = map_option rotation_y (earthRef (frames N s))
        \<and> map_option rotation_y (earthRef (frames N s)) = Some (rotation_y e + real N * 0.0005)
        \<and> world_point (rotatorRef (frames N s)) p = world_point (earthRef (frames N s)) p)"
  by (simp add: frames_earth frames_rotator frame_refs mounted_scene_def rotate_by_def
      world_point_def)

theorem C1_witness:
  "earthRef (frames 3 mounted_scene) = Some \<lparr>rotation_y = 0.0015\<rparr>
   \<and> rotatorRef (frames 3 mounted_scene) = Some \<lparr>rotation_y = 0.0015\<rparr>
   \<and> world_point (rotatorRef (frames 3 mounted_scene)) \<lparr>vx = 3, vy = 0, vz = 4\<rparr>
       = world_point (earthRef (frames 3 mounted_scene)) \<lparr>vx = 3, vy = 0, vz = 4\<rparr>
   \<and> earthRef (frame mounted_scene) = Some \<lparr>rotation_y = 0.0005\<rparr>
   \<and> rotatorRef (frame mounted_scene) = Some \<lparr>rotation_y = 0.0005\<rparr>"
  using C1_rotation_sync [of 3 "\<lparr>vx = 3, vy = 0, vz = 4\<rparr>" mounted_scene
      "\<lparr>rotation_y = 0\<rparr>" "\<lparr>rotation_y = 0\<rparr>"]
  by (simp add: mounted_scene_def)

section \<open>Services and handlers\<close>

lemma read_response_failure:
  "transport_failure r \<Longrightarrow> \<exists>e. read_response msg r = Inl e"
  by (cases r) (simp_all add: read_response_def)

lemma searchStations_fst:
  "fst (searchStations net f sent) =
     (case read_response ''Failed to search stations'' (net (length sent) (search_url f)) of
        Inl error \<Rightarrow> Inr [] | Inr v \<Rightarrow> Inr v)"
  by (simp add: searchStations_def Let_def)

lemma searchStations_snd: "snd (searchStations net f sent) = sent @ [search_url f]"
  by (simp add: searchStations_def Let_def)

lemma searchStations_returns: "\<exists>v. fst (searchStations net f sent) = Inr v"
  by (simp add: searchStations_fst split: sum.split)

lemma fetchTopStations_returns: "\<exists>v. fst (fetchTopStations net limit sent) = Inr v"
  by (simp add: fetchTopStations_def Let_def split: sum.split)

lemma searchStations_transport_failure:
  assumes "transport_failure (net (length sent) (search_url f))"
  shows "fst (searchStations net f sent) = Inr []"
  using read_response_failure [OF assms, of "''Failed to search stations''"]
  by (auto simp: searchStations_fst)

lemma fetchTopStations_transport_failure:
  assumes "transport_failure (net (length sent) (TopStations limit))"
  shows "fst (fetchTopStations net limit sent) = Inr []"
  using read_response_failure [OF assms, of "''Failed to fetch stations''"]
  by (auto simp: fetchTopStations_def Let_def)

lemma getMoodRecommendation_returns: "\<exists>r. getMoodRecommendation parse ai q = Inr r"
  by (simp add: getMoodRecommendation_def split: sum.split)

lemma getMoodRecommendation_caught:
  assumes "ai q = GenRejected \<or> ai q = GenResponse None \<or> ai q = GenResponse (Some [])
           \<or> (\<exists>t. ai q = GenResponse (Some t) \<and> parse t = None)"
  shows "getMoodRecommendation parse ai q = Inr mood_fallback"
  using assms
  by (auto simp: getMoodRecommendation_def getMoodRecommendation_try_def)

lemma getMoodRecommendation_unchecked:
  assumes "ai q = GenResponse (Some t)" and "t \<noteq> []" and "parse t = Some v"
  shows "getMoodRecommendation parse ai q = Inr v"
  using assms by (simp add: getMoodRecommendation_def getMoodRecommendation_try_def)

lemma get_prop_not_null: "v \<noteq> JNull \<Longrightarrow> get_prop v k = Inr (read_prop v k)"
  by (cases v) (simp_all add: read_prop_def)

lemma handleAIMood_null:
  assumes "getMoodRecommendation parse ai q = Inr JNull"
  shows "handleAIMood parse ai net q st sent =
           (Some TypeError,
            st\<lparr>loading := True, aiInsight := Some (JStr ''AI is finding your frequency...'')\<rparr>,
            sent)"
  by (simp add: handleAIMood_def assms)

lemma handleAIMood_requests:
  assumes "getMoodRecommendation parse ai q = Inr response"
    and "response \<noteq> JNull"
    and "fst (searchStations net (mood_filter response) sent) = Inr results"
  shows "snd (snd (handleAIMood parse ai net q st sent)) =
           sent @ search_url (mood_filter response)
             # (if filterResults results = [] \<and> truthy (read_prop response ''tag'')
                then [search_url (loose_filter response)] else [])"
proof -
  obtain sent1 where s1: "searchStations net (mood_filter response) sent = (Inr results, sent1)"
    using assms(3) by (cases "searchStations net (mood_filter response) sent") simp
  have sent1: "sent1 = sent @ [search_url (mood_filter response)]"
    using searchStations_snd [of net "mood_filter response" sent] s1 by simp
  obtain loose sent2 where s2: "searchStations net (loose_filter response) sent1 = (Inr loose, sent2)"
    using searchStations_returns [of net "loose_filter response" sent1]
    by (cases "searchStations net (loose_filter response) sent1") auto
  have sent2: "sent2 = sent1 @ [search_url (loose_filter response)]"
    using searchStations_snd [of net "loose_filter response" sent1] s2 by simp
  have "snd (snd (handleAIMood parse ai net q st sent)) =
          (if filterResults results = [] \<and> truthy (read_prop response ''tag'') then sent2 else sent1)"
    by (simp add: handleAIMood_def Let_def assms(1) get_prop_not_null [OF assms(2)] s1 s2)
  then show ?thesis
    by (simp add: sent1 sent2)
qed

text \<open>
  C9. No failure is claimed to be fatal, and a malformed inference result is claimed to
  give the fixed fallback filter. The \<open>catch\<close> of \<open>getMoodRecommendation\<close> covers a
  rejected call, a missing text and a text that is not JSON; a text that is JSON of another
  shape is returned as it is. For the text \<open>null\<close> the mood operation returns
  \<open>null\<close>, not the fallback, and \<open>handleAIMood\<close> then throws a TypeError on reading
  \<open>response.explanation\<close>: no query is sent and \<open>loading\<close> stays set.
\<close>

theorem C9_null_response_not_recovered:
  "getMoodRecommendation jazz_parse null_ai ''Rainy jazz cafe in Tokyo'' = Inr JNull
   \<and> JNull \<noteq> mood_fallback
   \<and> handleAIMood jazz_parse null_ai (empty_then bar_station) ''Rainy jazz cafe in Tokyo''
       blank_app []
     = (Some TypeError,
        blank_app\<lparr>loading := True,
                  aiInsight := Some (JStr ''AI is finding your frequency...'')\<rparr>,
        [])"
proof -
  have r: "getMoodRecommendation jazz_parse null_ai ''Rainy jazz cafe in Tokyo'' = Inr JNull"
    by (simp add: getMoodRecommendation_def getMoodRecommendation_try_def null_ai_def
        jazz_parse_def jazz_text_def uganda_text_def quoted_def)
  show ?thesis
    using r by (simp add: handleAIMood_def mood_fallback_def)
qed

text \<open>
  C8. The tag-only query is claimed to be sent exactly when the primary result has no
  geo-valid record and a tag was present. The handler tests the array left by the geo
  filter, and that filter drops a record whose latitude is 0: when the primary query
  returns one station on the equator, with both coordinates, the tag-only query is sent
  all the same and its result replaces the station.
\<close>

theorem C8_fallback_sent_despite_valid_record:
  "has_coords equator_station
   \<and> fst (searchStations (first_then [equator_station] [bar_station])
          (mood_filter uganda_response) []) = Inr [equator_station]
   \<and> snd (snd (handleAIMood jazz_parse uganda_ai (first_then [equator_station] [bar_station])
          ''pop from the equator'' blank_app []))
     = [Search 50 (Some (JStr ''Uganda'')) (Some (JStr ''pop'')) None,
        Search 50 None (Some (JStr ''pop'')) None]
   \<and> stations (fst (snd (handleAIMood jazz_parse uganda_ai
          (first_then [equator_station] [bar_station]) ''pop from the equator'' blank_app [])))
     = [bar_station]"
proof -
  have r: "getMoodRecommendation jazz_parse uganda_ai ''pop from the equator'' = Inr uganda_response"
    by (simp add: getMoodRecommendation_def getMoodRecommendation_try_def uganda_ai_def
        jazz_parse_def jazz_text_def uganda_text_def quoted_def)
  have c: "has_coords equator_station"
    by (simp add: has_coords_def equator_station_def blank_station_def)
  have s: "fst (searchStations (first_then [equator_station] [bar_station])
          (mood_filter uganda_response) []) = Inr [equator_station]"
    by (simp add: searchStations_fst read_response_def first_then_def)
  have h: "handleAIMood jazz_parse uganda_ai (first_then [equator_station] [bar_station])
          ''pop from the equator'' blank_app []
        = (None,
           blank_app\<lparr>stations := [bar_station], aiInsight := Some (JStr ''bright equatorial pop'')\<rparr>,
           [Search 50 (Some (JStr ''Uganda'')) (Some (JStr ''pop'')) None,
            Search 50 None (Some (JStr ''pop'')) None])"
    by (simp add: handleAIMood_def r uganda_response_def mood_filter_def loose_filter_def
        read_prop_def search_url_def searchStations_def read_response_def first_then_def
        filterResults_def equator_station_def bar_station_def blank_station_def blank_app_def
        Let_def)
  show ?thesis using c s h by simp
qed

text \<open>
  C2. The records installed from the tag-only query are claimed to have both a latitude and
  a longitude. The filter on that path (line 146) tests the latitude only, unlike the
  filter on the primary result (line 141): a record with a latitude and no longitude is
  installed.
\<close>

theorem C2_fallback_installs_record_without_longitude:
  "fst (snd (handleAIMood jazz_parse jazz_ai (empty_then lat_only_station)
       ''Rainy jazz cafe in Tokyo'' blank_app []))
     = blank_app\<lparr>stations := [lat_only_station],
                 aiInsight := Some (JStr ''smoky downtempo vibes'')\<rparr>
   \<and> geo_long lat_only_station = None
   \<and> \<not> has_coords lat_only_station"
proof -
  have r: "getMoodRecommendation jazz_parse jazz_ai ''Rainy jazz cafe in Tokyo'' = Inr jazz_response"
    by (simp add: getMoodRecommendation_def getMoodRecommendation_try_def jazz_ai_def
        jazz_parse_def jazz_text_def quoted_def)
  show ?thesis
    by (simp add: handleAIMood_def r jazz_response_def mood_filter_def loose_filter_def
        read_prop_def search_url_def searchStations_def read_response_def empty_then_def
        filterResults_def has_coords_def lat_only_station_def blank_station_def blank_app_def
        Let_def)
qed

text \<open>
  C10. Selecting the station whose identifier is that of the current selection only
  toggles the playback: the handler returns the state it was given with the audio element
  paused or played, so the selected station and the list of stations are unchanged.
\<close>

theorem C10_same_station_only_toggles:
  assumes "currentStation st = Some c" and "stationuuid c = stationuuid station"
  shows "currentStation (handleStationSelect gen station st) = currentStation st
         \<and> stations (handleStationSelect gen station st) = stations st
         \<and> handleStationSelect gen station st =
             st\<lparr>audioRef := (if isPlaying st then audio_pause (audioRef st)
                             else audio_play (audioRef st))\<rparr>"
  using assms by (simp add: handleStationSelect_def)

theorem C10_witness:
  "currentStation (handleStationSelect (\<lambda>n c t. GenRejected) foo_station
       (blank_app\<lparr>stations := [bar_station, p1], currentStation := Some bar_station\<rparr>))
     = Some bar_station
   \<and> stations (handleStationSelect (\<lambda>n c t. GenRejected) foo_station
       (blank_app\<lparr>stations := [bar_station, p1], currentStation := Some bar_station\<rparr>))
     = [bar_station, p1]"
  using C10_same_station_only_toggles
    [of "blank_app\<lparr>stations := [bar_station, p1], currentStation := Some bar_station\<rparr>"
      bar_station foo_station "\<lambda>n c t. GenRejected"]
  by (simp add: foo_station_def bar_station_def blank_station_def)

end
